theory Spec2Isabelle
  imports Complex_Main "HOL-Library.Char_ord" "HOL-Library.List_Lexorder"
    "HOL-Library.Product_Lexorder"
begin

section \<open>Values, exceptions and query conditions\<close>

text \<open>
  The repositories of \<^verbatim>\<open>app/repositories\<close> receive their filters as keyword
  arguments of any type. \<open>val\<close> is the universe of values that reach them: \<open>None\<close>,
  integers, floats (only compared, never computed with, and so read as real numbers),
  strings, lists and dictionaries. A dictionary keeps its items in an association list.
\<close>

datatype val = VNone | VInt int | VFloat real | VStr string
  | VList "val list" | VDict "(string \<times> val) list"

text \<open>
  Exceptions of \<^verbatim>\<open>app/core/exceptions.py\<close>, of FastAPI and of Python that the modelled
  code can raise. \<open>NotFoundException m i\<close> carries the model name and the identifier of
  the detail string \<^verbatim>\<open>f"{m} with id {i} not found"\<close>; \<open>IdsNotFound ids\<close> is the detail
  \<^verbatim>\<open>f"Products with IDs {ids} not found"\<close>.
\<close>

datatype detail = Text string | IdsNotFound "int list"

datatype exn =
    NotFoundException string int
  | HTTPException nat detail
  | AttributeError string
  | IntegrityError string
  | ValidationError string

text \<open>An object read from the store, seen through its column attributes.\<close>

type_synonym row = "(string \<times> val) list"

definition getattr :: "row \<Rightarrow> string \<Rightarrow> val" where
  "getattr r k = (case map_of r k of Some v \<Rightarrow> v | None \<Rightarrow> VNone)"

text \<open>
  Comparison operators of the store. Numbers compare by value, strings with strings;
  a comparison with NULL, or between values of different kinds, holds for no row.
\<close>

fun as_num :: "val \<Rightarrow> real option" where
  "as_num (VInt i) = Some (of_int i)"
| "as_num (VFloat x) = Some x"
| "as_num _ = None"

fun sql_eq :: "val \<Rightarrow> val \<Rightarrow> bool" where
  "sql_eq (VStr s) (VStr t) = (s = t)"
| "sql_eq a b = (case as_num a of None \<Rightarrow> False
     | Some x \<Rightarrow> (case as_num b of None \<Rightarrow> False | Some y \<Rightarrow> x = y))"

fun sql_le :: "val \<Rightarrow> val \<Rightarrow> bool" where
  "sql_le (VStr s) (VStr t) = (s \<le> t)"
| "sql_le a b = (case as_num a of None \<Rightarrow> False
     | Some x \<Rightarrow> (case as_num b of None \<Rightarrow> False | Some y \<Rightarrow> x \<le> y))"

text \<open>
  A condition of a \<^verbatim>\<open>where\<close> clause is a predicate on rows. The builders follow the
  SQLAlchemy operators used in the source: \<^verbatim>\<open>col >= v\<close>, \<^verbatim>\<open>col <= v\<close>,
  \<^verbatim>\<open>col == v\<close>, \<^verbatim>\<open>col.in_(vs)\<close>, \<^verbatim>\<open>col.ilike(p)\<close>, \<^verbatim>\<open>and_\<close>, \<^verbatim>\<open>or_\<close>.
  The pattern matcher of \<^verbatim>\<open>ILIKE\<close> belongs to the store and is a parameter.
\<close>

type_synonym cond = "row \<Rightarrow> bool"

definition col_ge :: "string \<Rightarrow> val \<Rightarrow> cond" where
  "col_ge k v = (\<lambda>r. sql_le v (getattr r k))"

definition col_le :: "string \<Rightarrow> val \<Rightarrow> cond" where
  "col_le k v = (\<lambda>r. sql_le (getattr r k) v)"

definition col_eq :: "string \<Rightarrow> val \<Rightarrow> cond" where
  "col_eq k v = (\<lambda>r. sql_eq (getattr r k) v)"

definition col_in :: "string \<Rightarrow> val list \<Rightarrow> cond" where
  "col_in k vs = (\<lambda>r. list_ex (sql_eq (getattr r k)) vs)"


definition and_conds :: "cond list \<Rightarrow> cond" where
  "and_conds cs = (\<lambda>r. list_all (\<lambda>c. c r) cs)"


text \<open>
  \<^verbatim>\<open>if filter_conditions: query = query.where(and_(*filter_conditions))\<close>, on the rows
  \<open>xs\<close> of a table seen through \<open>view\<close>.
\<close>

definition where_conditions :: "('a \<Rightarrow> row) \<Rightarrow> cond list \<Rightarrow> 'a list \<Rightarrow> 'a list" where
  "where_conditions view cs xs =
     (if cs \<noteq> [] then filter (\<lambda>x. and_conds cs (view x)) xs else xs)"

text \<open>
  \<^verbatim>\<open>ORDER BY col\<close>. Rows are ranked by the value of the column: numbers by value, then
  strings in lexicographic order, then NULL (last when ascending, first when descending,
  as the PostgreSQL store of \<^verbatim>\<open>app/core/config.py\<close> does).
\<close>

fun sort_rank :: "val \<Rightarrow> nat \<times> real \<times> string" where
  "sort_rank (VInt i) = (0, of_int i, [])"
| "sort_rank (VFloat x) = (0, x, [])"
| "sort_rank (VStr s) = (1, 0, s)"
| "sort_rank _ = (2, 0, [])"

definition order_by :: "('a \<Rightarrow> row) \<Rightarrow> string \<Rightarrow> bool \<Rightarrow> 'a list \<Rightarrow> 'a list" where
  "order_by view k descending xs =
     (let s = sort_key (\<lambda>x. sort_rank (getattr (view x) k)) xs
      in if descending then rev s else s)"

text \<open>\<^verbatim>\<open>query.offset(skip).limit(limit)\<close>, for the non-negative values the endpoints pass.\<close>

definition offset_limit :: "nat \<Rightarrow> nat \<Rightarrow> 'a list \<Rightarrow> 'a list" where
  "offset_limit skip limit xs = take limit (drop skip xs)"

text \<open>\<^verbatim>\<open>str.lower\<close> on the ASCII letters, which decide a comparison with \<^verbatim>\<open>"desc"\<close>.\<close>

definition lower :: "string \<Rightarrow> string" where
  "lower s = map (\<lambda>c. case map_of (zip ''ABCDEFGHIJKLMNOPQRSTUVWXYZ''
                                         ''abcdefghijklmnopqrstuvwxyz'') c of
                         Some l \<Rightarrow> l | None \<Rightarrow> c) s"

text \<open>The truth value Python gives an optional string: \<open>None\<close> and \<^verbatim>\<open>""\<close> are false.\<close>

fun truthy_str :: "string option \<Rightarrow> bool" where
  "truthy_str None = False"
| "truthy_str (Some s) = (s \<noteq> [])"

section \<open>The generic repository (\<^verbatim>\<open>app/repositories/base.py\<close>)\<close>

text \<open>
  \<^verbatim>\<open>BaseRepository\<close> is generic in the model class. A model is given by its name, the
  names of its column attributes (what \<^verbatim>\<open>hasattr(self.model, key)\<close> tests) and the view
  of an instance as a row. A table is the list of its instances in the order in which the
  store yields them when a query has no \<^verbatim>\<open>ORDER BY\<close>.
\<close>

record 'a model =
  model_name :: string
  columns :: "string list"
  as_row :: "'a \<Rightarrow> row"

definition hasattr :: "'a model \<Rightarrow> string \<Rightarrow> bool" where
  "hasattr m key = (key \<in> set (columns m))"

text \<open>The range filter of a dictionary value: lines 59 to 62 of \<^verbatim>\<open>get_multi\<close>.\<close>

definition range_conditions :: "string \<Rightarrow> (string \<times> val) list \<Rightarrow> cond list" where
  "range_conditions key d =
     (case map_of d ''min'' of
        Some lo \<Rightarrow> if lo \<noteq> VNone then [col_ge key lo] else []
      | None \<Rightarrow> []) @
     (case map_of d ''max'' of
        Some hi \<Rightarrow> if hi \<noteq> VNone then [col_le key hi] else []
      | None \<Rightarrow> [])"

text \<open>The body of the loop over \<^verbatim>\<open>filters.items()\<close> in \<^verbatim>\<open>get_multi\<close>.\<close>

fun get_multi_condition :: "'a model \<Rightarrow> string \<times> val \<Rightarrow> cond list" where
  "get_multi_condition m (key, value) =
     (if hasattr m key then
        (case value of
           VDict d \<Rightarrow> range_conditions key d
         | VList vs \<Rightarrow> [col_in key vs]
         | VNone \<Rightarrow> []
         | _ \<Rightarrow> [col_eq key value])
      else [])"

text \<open>
  The test \<^verbatim>\<open>sort_by and hasattr(self.model, sort_by)\<close>: the column to sort by, if any.
\<close>

definition sort_column :: "'a model \<Rightarrow> string option \<Rightarrow> string option" where
  "sort_column m sort_by =
     (case sort_by of
        None \<Rightarrow> None
      | Some k \<Rightarrow> if truthy_str sort_by \<and> hasattr m k then Some k else None)"

text \<open>
  \<^verbatim>\<open>BaseRepository.get_multi\<close>. \<^verbatim>\<open>sort_order.lower()\<close> raises \<^verbatim>\<open>AttributeError\<close>
  when the sort column exists and \<^verbatim>\<open>sort_order\<close> is \<open>None\<close>. With no sort column the
  query has no \<^verbatim>\<open>ORDER BY\<close>, and the rows come in the order of the table.
\<close>

definition get_multi ::
  "'a model \<Rightarrow> 'a list \<Rightarrow> nat \<Rightarrow> nat \<Rightarrow> string option \<Rightarrow> string option \<Rightarrow>
     (string \<times> val) list \<Rightarrow> exn + 'a list" where
  "get_multi m tbl skip limit sort_by sort_order filters =
     (let query = where_conditions (as_row m) (concat (map (get_multi_condition m) filters)) tbl
      in case sort_column m sort_by of
           Some k \<Rightarrow>
             (case sort_order of
                None \<Rightarrow> Inl (AttributeError ''lower'')
              | Some ord \<Rightarrow>
                  Inr (offset_limit skip limit
                        (order_by (as_row m) k (lower ord = ''desc'') query)))
         | None \<Rightarrow> Inr (offset_limit skip limit query))"

text \<open>
  The body of the loop over \<^verbatim>\<open>filters.items()\<close> in \<^verbatim>\<open>BaseRepository.count\<close>: every
  value that is not \<open>None\<close> is compared with \<^verbatim>\<open>==\<close>, a dictionary or a list too, and
  no column holds a value equal to one of those.
\<close>

fun count_condition :: "'a model \<Rightarrow> string \<times> val \<Rightarrow> cond list" where
  "count_condition m (key, value) =
     (if hasattr m key \<and> value \<noteq> VNone then [col_eq key value] else [])"

text \<open>\<^verbatim>\<open>BaseRepository.count\<close>.\<close>

definition count :: "'a model \<Rightarrow> 'a list \<Rightarrow> (string \<times> val) list \<Rightarrow> nat" where
  "count m tbl filters =
     length (where_conditions (as_row m) (concat (map (count_condition m) filters)) tbl)"

text \<open>\<^verbatim>\<open>BaseRepository.get\<close>: the lookup by primary key, which raises when nothing is found.\<close>

definition get :: "'a model \<Rightarrow> 'a list \<Rightarrow> int \<Rightarrow> exn + 'a" where
  "get m tbl i =
     (case find (\<lambda>x. getattr (as_row m x) ''id'' = VInt i) tbl of
        None \<Rightarrow> Inl (NotFoundException (model_name m) i)
      | Some x \<Rightarrow> Inr x)"

text \<open>
  \<^verbatim>\<open>BaseRepository.batch_delete\<close>: one query selects the rows whose id is in \<open>ids\<close>, and
  those rows are deleted. The result is the new table and the deleted rows.
\<close>

definition batch_delete :: "'a model \<Rightarrow> 'a list \<Rightarrow> int list \<Rightarrow> 'a list \<times> 'a list" where
  "batch_delete m tbl ids =
     (if ids = [] then (tbl, [])
      else
        let db_objs = filter (col_in ''id'' (map VInt ids) \<circ> as_row m) tbl
        in if db_objs = [] then (tbl, [])
           else (filter (\<lambda>x. \<not> col_in ''id'' (map VInt ids) (as_row m x)) tbl, db_objs))"

section \<open>The models (\<^verbatim>\<open>app/models/models.py\<close>)\<close>

text \<open>
  Timestamps are readings of a clock, as integers; every history row is created with
  one. The relationship \<^verbatim>\<open>Product.suppliers\<close> and its association table are not
  modelled.
\<close>

record product =
  prod_id :: int
  prod_name :: string
  prod_price :: real
  prod_description :: "string option"
  prod_stock_quantity :: int
  prod_category :: "string option"
  prod_discount :: real
  prod_created_at :: int
  prod_updated_at :: int

record supplier =
  sup_id :: int
  sup_name :: string
  sup_contact_info :: string
  sup_credit_rating :: int
  sup_created_at :: int
  sup_updated_at :: int

record price_history =
  ph_id :: int
  ph_product_id :: int
  ph_old_price :: real
  ph_new_price :: real
  ph_timestamp :: int

record stock_history =
  sh_id :: int
  sh_product_id :: int
  sh_old_quantity :: int
  sh_new_quantity :: int
  sh_change_reason :: "string option"
  sh_timestamp :: int

fun opt_str :: "string option \<Rightarrow> val" where
  "opt_str None = VNone"
| "opt_str (Some s) = VStr s"

definition product_row :: "product \<Rightarrow> row" where
  "product_row p =
     [(''id'', VInt (prod_id p)), (''name'', VStr (prod_name p)),
      (''price'', VFloat (prod_price p)), (''description'', opt_str (prod_description p)),
      (''stock_quantity'', VInt (prod_stock_quantity p)),
      (''category'', opt_str (prod_category p)), (''discount'', VFloat (prod_discount p)),
      (''created_at'', VInt (prod_created_at p)), (''updated_at'', VInt (prod_updated_at p))]"

definition Product :: "product model" where
  "Product = \<lparr>model_name = ''Product'',
     columns = [''id'', ''name'', ''price'', ''description'', ''stock_quantity'',
                ''category'', ''discount'', ''created_at'', ''updated_at''],
     as_row = product_row\<rparr>"

definition supplier_row :: "supplier \<Rightarrow> row" where
  "supplier_row s =
     [(''id'', VInt (sup_id s)), (''name'', VStr (sup_name s)),
      (''contact_info'', VStr (sup_contact_info s)),
      (''credit_rating'', VInt (sup_credit_rating s)),
      (''created_at'', VInt (sup_created_at s)), (''updated_at'', VInt (sup_updated_at s))]"

definition Supplier :: "supplier model" where
  "Supplier = \<lparr>model_name = ''Supplier'',
     columns = [''id'', ''name'', ''contact_info'', ''credit_rating'',
                ''created_at'', ''updated_at''],
     as_row = supplier_row\<rparr>"

text \<open>
  The state of the store: the four tables, each in the order in which the store yields
  its rows, and the next value of each table's id sequence.
\<close>

record db =
  products :: "product list"
  suppliers :: "supplier list"
  price_history :: "price_history list"
  stock_history :: "stock_history list"
  product_seq :: int
  supplier_seq :: int
  price_history_seq :: int
  stock_history_seq :: int

text \<open>
  A call that changes the store returns the new state together with its result or the
  exception it raised. What was committed before an exception stays committed.
  \<open>then_do\<close> sequences two such calls: an exception of the first skips the second.
\<close>

definition then_do ::
  "db \<times> (exn + 'a) \<Rightarrow> (db \<Rightarrow> 'a \<Rightarrow> db \<times> (exn + 'b)) \<Rightarrow> db \<times> (exn + 'b)" where
  "then_do r f = (case r of (d, Inl e) \<Rightarrow> (d, Inl e) | (d, Inr x) \<Rightarrow> f d x)"

section \<open>The history repositories (\<^verbatim>\<open>app/repositories/history.py\<close>)\<close>

text \<open>
  \<^verbatim>\<open>PriceHistoryRepository.add_price_change\<close>. \<open>now\<close> is \<^verbatim>\<open>datetime.utcnow()\<close>. The
  columns \<^verbatim>\<open>new_price\<close> and \<^verbatim>\<open>product_id\<close> are declared \<^verbatim>\<open>nullable=False\<close> and
  \<^verbatim>\<open>ForeignKey("products.id")\<close>: the commit of a row that breaks either raises.
\<close>

definition add_price_change ::
  "db \<Rightarrow> int \<Rightarrow> real \<Rightarrow> real option \<Rightarrow> int \<Rightarrow> db \<times> (exn + price_history)" where
  "add_price_change d product_id old_price new_price now =
     (case new_price of
        None \<Rightarrow> (d, Inl (IntegrityError ''price_history.new_price''))
      | Some np \<Rightarrow>
          if \<not> list_ex (\<lambda>p. prod_id p = product_id) (products d)
          then (d, Inl (IntegrityError ''price_history.product_id''))
          else
            let h = \<lparr>ph_id = price_history_seq d, ph_product_id = product_id,
                     ph_old_price = old_price, ph_new_price = np, ph_timestamp = now\<rparr>
            in (d\<lparr>price_history := price_history d @ [h],
                   price_history_seq := price_history_seq d + 1\<rparr>, Inr h))"

text \<open>\<^verbatim>\<open>StockHistoryRepository.add_stock_change\<close>.\<close>

definition add_stock_change ::
  "db \<Rightarrow> int \<Rightarrow> int \<Rightarrow> int option \<Rightarrow> string option \<Rightarrow> int \<Rightarrow>
     db \<times> (exn + stock_history)" where
  "add_stock_change d product_id old_quantity new_quantity change_reason now =
     (case new_quantity of
        None \<Rightarrow> (d, Inl (IntegrityError ''stock_history.new_quantity''))
      | Some nq \<Rightarrow>
          if \<not> list_ex (\<lambda>p. prod_id p = product_id) (products d)
          then (d, Inl (IntegrityError ''stock_history.product_id''))
          else
            let h = \<lparr>sh_id = stock_history_seq d, sh_product_id = product_id,
                     sh_old_quantity = old_quantity, sh_new_quantity = nq,
                     sh_change_reason = change_reason, sh_timestamp = now\<rparr>
            in (d\<lparr>stock_history := stock_history d @ [h],
                   stock_history_seq := stock_history_seq d + 1\<rparr>, Inr h))"







section \<open>The product repository (\<^verbatim>\<open>app/repositories/product.py\<close>)\<close>

text \<open>
  \<^verbatim>\<open>ProductRepository.delete\<close>: \<^verbatim>\<open>get\<close> raises for an absent id; otherwise the product
  is deleted and, by \<^verbatim>\<open>cascade="all, delete-orphan"\<close>, its history rows with it.
\<close>

definition ProductRepository_delete :: "db \<Rightarrow> int \<Rightarrow> db \<times> (exn + product)" where
  "ProductRepository_delete d i =
     (case get Product (products d) i of
        Inl e \<Rightarrow> (d, Inl e)
      | Inr obj \<Rightarrow>
          (d\<lparr>products := filter (\<lambda>p. prod_id p \<noteq> i) (products d),
              price_history := filter (\<lambda>h. ph_product_id h \<noteq> i) (price_history d),
              stock_history := filter (\<lambda>h. sh_product_id h \<noteq> i) (stock_history d)\<rparr>,
           Inr obj))"

text \<open>The truth value Python gives a value.\<close>

fun truthy :: "val \<Rightarrow> bool" where
  "truthy VNone = False"
| "truthy (VInt i) = (i \<noteq> 0)"
| "truthy (VFloat x) = (x \<noteq> 0)"
| "truthy (VStr s) = (s \<noteq> [])"
| "truthy (VList vs) = (vs \<noteq> [])"
| "truthy (VDict kvs) = (kvs \<noteq> [])"

text \<open>
  The body of the loop over \<^verbatim>\<open>kwargs.items()\<close> in
  \<^verbatim>\<open>ProductRepository.get_multi_with_suppliers\<close>.
\<close>

fun list_condition :: "string \<times> val \<Rightarrow> cond list" where
  "list_condition (key, value) =
     (if key = ''category'' \<and> truthy value then [col_eq ''category'' value]
      else case (key = ''price_range'', value) of
        (True, VDict d) \<Rightarrow> range_conditions ''price'' d
      | _ \<Rightarrow> (case (key = ''stock_range'', value) of
          (True, VDict d) \<Rightarrow> range_conditions ''stock_quantity'' d
        | _ \<Rightarrow> if hasattr Product key \<and> value \<noteq> VNone then [col_eq key value] else []))"

text \<open>
  \<^verbatim>\<open>ProductRepository.get_multi_with_suppliers\<close>. Without a sort column the query is
  ordered by \<^verbatim>\<open>Product.id.asc()\<close>.
\<close>

definition get_multi_with_suppliers ::
  "db \<Rightarrow> nat \<Rightarrow> nat \<Rightarrow> string option \<Rightarrow> string option \<Rightarrow> (string \<times> val) list \<Rightarrow>
     product list" where
  "get_multi_with_suppliers d skip limit sort_by sort_order kwargs =
     (let query = where_conditions product_row (concat (map list_condition kwargs)) (products d)
      in case sort_column Product sort_by of
           Some k \<Rightarrow>
             offset_limit skip limit
               (order_by product_row k
                  (case sort_order of
                     None \<Rightarrow> False
                   | Some ord \<Rightarrow> truthy_str sort_order \<and> lower ord = ''desc'')
                  query)
         | None \<Rightarrow> offset_limit skip limit (order_by product_row ''id'' False query))"





text \<open>
  The dictionary that \<^verbatim>\<open>BaseRepository.update\<close> receives for a product: for each field,
  \<open>None\<close> when the key is absent, \<open>Some None\<close> when it is present with the value
  \<open>None\<close>, \<open>Some (Some v)\<close> when it is present with the value \<open>v\<close>.
\<close>

record product_update_data =
  upd_name :: "string option option"
  upd_price :: "real option option"
  upd_description :: "string option option"
  upd_stock_quantity :: "int option option"
  upd_category :: "string option option"
  upd_discount :: "real option option"

text \<open>\<^verbatim>\<open>if field in update_data: setattr(db_obj, field, update_data[field])\<close>.\<close>

fun setattr :: "'a option option \<Rightarrow> 'a option \<Rightarrow> 'a option" where
  "setattr None current = current"
| "setattr (Some v) current = v"

text \<open>
  \<^verbatim>\<open>BaseRepository.update\<close> on a product. The columns \<^verbatim>\<open>name\<close>, \<^verbatim>\<open>price\<close>,
  \<^verbatim>\<open>stock_quantity\<close> and \<^verbatim>\<open>discount\<close> are \<^verbatim>\<open>nullable=False\<close>: the commit raises when
  one of them was set to \<open>None\<close>. \<^verbatim>\<open>updated_at\<close> has \<^verbatim>\<open>onupdate=datetime.utcnow\<close> and
  takes the time \<open>now\<close> when the row changes.
\<close>

definition BaseRepository_update_Product ::
  "db \<Rightarrow> product \<Rightarrow> product_update_data \<Rightarrow> int \<Rightarrow> db \<times> (exn + product)" where
  "BaseRepository_update_Product d db_obj update_data now =
     (case (setattr (upd_name update_data) (Some (prod_name db_obj)),
            setattr (upd_price update_data) (Some (prod_price db_obj)),
            setattr (upd_stock_quantity update_data) (Some (prod_stock_quantity db_obj)),
            setattr (upd_discount update_data) (Some (prod_discount db_obj))) of
        (Some n, Some pr, Some st, Some di) \<Rightarrow>
          let obj = db_obj\<lparr>prod_name := n, prod_price := pr, prod_stock_quantity := st,
                    prod_discount := di,
                    prod_description :=
                      setattr (upd_description update_data) (prod_description db_obj),
                    prod_category := setattr (upd_category update_data) (prod_category db_obj)\<rparr>;
              obj' = (if obj = db_obj then obj else obj\<lparr>prod_updated_at := now\<rparr>)
          in (d\<lparr>products :=
                  map (\<lambda>q. if prod_id q = prod_id db_obj then obj' else q) (products d)\<rparr>,
              Inr obj')
      | _ \<Rightarrow> (d, Inl (IntegrityError ''products'')))"

text \<open>
  The data of a \<^verbatim>\<open>ProductCreate\<close> (\<^verbatim>\<open>app/schemas/product.py\<close>), and
  \<^verbatim>\<open>BaseRepository.create\<close> on it. An absent discount takes the column default 0.
\<close>

record product_create =
  pc_name :: string
  pc_price :: real
  pc_description :: "string option"
  pc_stock_quantity :: int
  pc_category :: "string option"
  pc_discount :: "real option"

definition new_product :: "int \<Rightarrow> product_create \<Rightarrow> int \<Rightarrow> product" where
  "new_product i obj_in now =
     \<lparr>prod_id = i, prod_name = pc_name obj_in, prod_price = pc_price obj_in,
      prod_description = pc_description obj_in,
      prod_stock_quantity = pc_stock_quantity obj_in, prod_category = pc_category obj_in,
      prod_discount = (case pc_discount obj_in of None \<Rightarrow> 0 | Some x \<Rightarrow> x),
      prod_created_at = now, prod_updated_at = now\<rparr>"

definition BaseRepository_create_Product ::
  "db \<Rightarrow> product_create \<Rightarrow> int \<Rightarrow> db \<times> (exn + product)" where
  "BaseRepository_create_Product d obj_in now =
     (let db_obj = new_product (product_seq d) obj_in now
      in (d\<lparr>products := products d @ [db_obj], product_seq := product_seq d + 1\<rparr>,
          Inr db_obj))"

text \<open>\<^verbatim>\<open>ProductRepository.batch_create\<close>: every object is added, then one commit.\<close>

fun ProductRepository_batch_create ::
  "db \<Rightarrow> product_create list \<Rightarrow> int \<Rightarrow> db \<times> product list" where
  "ProductRepository_batch_create d [] now = (d, [])"
| "ProductRepository_batch_create d (obj_in # objs_in) now =
     (let db_obj = new_product (product_seq d) obj_in now;
          (d', rest) = ProductRepository_batch_create
             (d\<lparr>products := products d @ [db_obj], product_seq := product_seq d + 1\<rparr>)
             objs_in now
      in (d', db_obj # rest))"

section \<open>The product service (\<^verbatim>\<open>app/services/product.py\<close>)\<close>

text \<open>
  The price check of \<^verbatim>\<open>update_product\<close> (lines 135 to 142), which
  \<^verbatim>\<open>batch_update_products\<close> repeats (lines 346 to 353):
  \<^verbatim>\<open>'price' in update_data and update_data['price'] != product.price\<close>.
\<close>

definition track_price ::
  "db \<Rightarrow> product \<Rightarrow> product_update_data \<Rightarrow> int \<Rightarrow> db \<times> (exn + unit)" where
  "track_price d product update_data now =
     (case upd_price update_data of
        None \<Rightarrow> (d, Inr ())
      | Some v \<Rightarrow>
          if v \<noteq> Some (prod_price product)
          then then_do
                 (add_price_change d (prod_id product) (prod_price product) v now)
                 (\<lambda>d' h. (d', Inr ()))
          else (d, Inr ()))"

text \<open>The stock check (lines 144 to 152, and 355 to 363).\<close>

definition track_stock ::
  "db \<Rightarrow> product \<Rightarrow> product_update_data \<Rightarrow> string option \<Rightarrow> int \<Rightarrow> db \<times> (exn + unit)" where
  "track_stock d product update_data change_reason now =
     (case upd_stock_quantity update_data of
        None \<Rightarrow> (d, Inr ())
      | Some v \<Rightarrow>
          if v \<noteq> Some (prod_stock_quantity product)
          then then_do
                 (add_stock_change d (prod_id product) (prod_stock_quantity product) v
                    change_reason now)
                 (\<lambda>d' h. (d', Inr ()))
          else (d, Inr ()))"

text \<open>
  \<^verbatim>\<open>ProductService.update_product\<close>, called with the dictionary \<open>update_data\<close>. The test
  \<^verbatim>\<open>if not product\<close> after \<^verbatim>\<open>get\<close> never holds: \<^verbatim>\<open>get\<close> returns an object or raises.
\<close>

definition update_product ::
  "db \<Rightarrow> int \<Rightarrow> product_update_data \<Rightarrow> string option \<Rightarrow> int \<Rightarrow> db \<times> (exn + product)" where
  "update_product d i update_data change_reason now =
     then_do (d, get Product (products d) i) (\<lambda>d product.
     then_do (track_price d product update_data now) (\<lambda>d1 u.
     then_do (track_stock d1 product update_data change_reason now) (\<lambda>d2 u.
       BaseRepository_update_Product d2 product update_data now)))"

text \<open>
  \<^verbatim>\<open>ProductService.create_product\<close>. A \<^verbatim>\<open>ProductCreate\<close> has no attribute
  \<^verbatim>\<open>supplier_ids\<close>, so no supplier is added.
\<close>

definition create_product :: "db \<Rightarrow> product_create \<Rightarrow> int \<Rightarrow> db \<times> (exn + product)" where
  "create_product d product_in now = BaseRepository_create_Product d product_in now"

text \<open>
  The loop of \<^verbatim>\<open>ProductService.batch_delete_products\<close>, with its two accumulators.
  \<^verbatim>\<open>get\<close> raises for an absent id, so the branch that appends to
  \<^verbatim>\<open>not_found_ids\<close> is never taken.
\<close>

fun batch_delete_products_loop ::
  "db \<Rightarrow> int list \<Rightarrow> product list \<Rightarrow> int list \<Rightarrow> db \<times> (exn + product list \<times> int list)" where
  "batch_delete_products_loop d [] deleted_products not_found_ids =
     (d, Inr (deleted_products, not_found_ids))"
| "batch_delete_products_loop d (product_id # ids) deleted_products not_found_ids =
     (case get Product (products d) product_id of
        Inl e \<Rightarrow> (d, Inl e)
      | Inr product \<Rightarrow>
          (case ProductRepository_delete d product_id of
             (d', Inl e) \<Rightarrow> (d', Inl e)
           | (d', Inr obj) \<Rightarrow>
               batch_delete_products_loop d' ids (deleted_products @ [product]) not_found_ids))"

text \<open>\<^verbatim>\<open>ProductService.batch_delete_products\<close>.\<close>

definition batch_delete_products :: "db \<Rightarrow> int list \<Rightarrow> db \<times> (exn + product list)" where
  "batch_delete_products d ids =
     then_do (batch_delete_products_loop d ids [] []) (\<lambda>d' (deleted_products, not_found_ids).
       if not_found_ids \<noteq> []
       then (d', Inl (HTTPException 404 (IdsNotFound not_found_ids)))
       else (d', Inr deleted_products))"





section \<open>The product schemas (\<^verbatim>\<open>app/schemas/product.py\<close>)\<close>

text \<open>
  Validation accepts a body or raises. The two \<^verbatim>\<open>validate_price\<close> validators test the
  decimal digits of a float, one on \<^verbatim>\<open>str(v)\<close>, the other on \<^verbatim>\<open>v * 100\<close>; these
  floating-point tests are parameters: \<open>decimals v\<close> is the number of characters after the
  point in \<^verbatim>\<open>str(v)\<close> (0 without a point), and \<open>cents v\<close> says whether
  \<^verbatim>\<open>v * 100 == int(v * 100)\<close>. The bounds of \<^verbatim>\<open>Field\<close> are checked first.
\<close>

definition validate_ProductCreate ::
  "(real \<Rightarrow> nat) \<Rightarrow> product_create \<Rightarrow> exn + product_create" where
  "validate_ProductCreate decimals body =
     (if length (pc_name body) < 3 \<or> length (pc_name body) > 100
        then Inl (ValidationError ''name'')
      else if \<not> pc_price body > 0 then Inl (ValidationError ''price'')
      else if pc_price body < 0 then Inl (ValidationError ''Price cannot be negative'')
      else if decimals (pc_price body) > 2
        then Inl (ValidationError ''Price cannot have more than 2 decimal places'')
      else if \<not> pc_stock_quantity body \<ge> 0 then Inl (ValidationError ''stock_quantity'')
      else (case pc_discount body of
              None \<Rightarrow> Inr body
            | Some x \<Rightarrow> if 0 \<le> x \<and> x \<le> 100 then Inr body
                        else Inl (ValidationError ''discount'')))"

text \<open>
  The body of a \<^verbatim>\<open>ProductUpdate\<close>: the fields that were set, and \<^verbatim>\<open>change_reason\<close>.
\<close>

record product_update =
  body_data :: product_update_data
  body_change_reason :: "string option option"

definition validate_ProductUpdate ::
  "(real \<Rightarrow> bool) \<Rightarrow> product_update \<Rightarrow> exn + product_update" where
  "validate_ProductUpdate cents body =
     (let u = body_data body in
      if (case upd_name u of Some (Some n) \<Rightarrow> length n < 3 \<or> length n > 100 | _ \<Rightarrow> False)
        then Inl (ValidationError ''name'')
      else if (case upd_price u of Some (Some v) \<Rightarrow> \<not> v > 0 | _ \<Rightarrow> False)
        then Inl (ValidationError ''price'')
      else if (case upd_price u of Some (Some v) \<Rightarrow> \<not> cents v | _ \<Rightarrow> False)
        then Inl (ValidationError ''Price must have at most 2 decimal places'')
      else if (case upd_stock_quantity u of Some (Some q) \<Rightarrow> \<not> q \<ge> 0 | _ \<Rightarrow> False)
        then Inl (ValidationError ''stock_quantity'')
      else if (case upd_discount u of Some (Some x) \<Rightarrow> \<not> (0 \<le> x \<and> x \<le> 100) | _ \<Rightarrow> False)
        then Inl (ValidationError ''discount'')
      else Inr body)"

section \<open>The product endpoints (\<^verbatim>\<open>app/api/v1/endpoints/product.py\<close>)\<close>

text \<open>
  Each definition is an endpoint function as it runs when it is called; how FastAPI
  routes a request to a function is not modelled.
\<close>

text \<open>\<^verbatim>\<open>create_product\<close> (\<^verbatim>\<open>POST /products\<close>).\<close>

definition create_product_endpoint ::
  "(real \<Rightarrow> nat) \<Rightarrow> db \<Rightarrow> product_create \<Rightarrow> int \<Rightarrow> db \<times> (exn + product)" where
  "create_product_endpoint decimals d body now =
     (case validate_ProductCreate decimals body of
        Inl e \<Rightarrow> (d, Inl e)
      | Inr product_in \<Rightarrow> create_product d product_in now)"

text \<open>
  \<^verbatim>\<open>update_product\<close> (\<^verbatim>\<open>PUT /products/{product_id}\<close>): the path parameter has
  \<^verbatim>\<open>gt=0\<close>; \<^verbatim>\<open>change_reason\<close> is popped from the dumped body.
\<close>

definition update_product_endpoint ::
  "(real \<Rightarrow> bool) \<Rightarrow> db \<Rightarrow> int \<Rightarrow> product_update \<Rightarrow> int \<Rightarrow> db \<times> (exn + product)" where
  "update_product_endpoint cents d product_id body now =
     (if \<not> product_id > 0 then (d, Inl (ValidationError ''product_id''))
      else case validate_ProductUpdate cents body of
        Inl e \<Rightarrow> (d, Inl e)
      | Inr product_in \<Rightarrow>
          update_product d product_id (body_data product_in)
            (case body_change_reason product_in of None \<Rightarrow> None | Some r \<Rightarrow> r) now)"

text \<open>
  \<^verbatim>\<open>batch_create_products\<close> (\<^verbatim>\<open>POST /products/batch\<close>): every item is a
  \<^verbatim>\<open>ProductCreate\<close> and is validated before the service is called.
\<close>

fun validate_all :: "('a \<Rightarrow> exn + 'a) \<Rightarrow> 'a list \<Rightarrow> exn + 'a list" where
  "validate_all v [] = Inr []"
| "validate_all v (x # xs) =
     (case v x of
        Inl e \<Rightarrow> Inl e
      | Inr y \<Rightarrow> (case validate_all v xs of Inl e \<Rightarrow> Inl e | Inr ys \<Rightarrow> Inr (y # ys)))"

definition batch_create_products_endpoint ::
  "(real \<Rightarrow> nat) \<Rightarrow> db \<Rightarrow> product_create list \<Rightarrow> int \<Rightarrow> db \<times> (exn + product list)" where
  "batch_create_products_endpoint decimals d body now =
     (case validate_all (validate_ProductCreate decimals) body of
        Inl e \<Rightarrow> (d, Inl e)
      | Inr products_in \<Rightarrow>
          (case ProductRepository_batch_create d products_in now of
             (d', created) \<Rightarrow> (d', Inr created)))"

text \<open>The test \<^verbatim>\<open>"not found" in e.detail.lower()\<close>.\<close>

fun starts_with :: "string \<Rightarrow> string \<Rightarrow> bool" where
  "starts_with [] s = True"
| "starts_with (c # cs) [] = False"
| "starts_with (c # cs) (x # xs) = (c = x \<and> starts_with cs xs)"

fun contains :: "string \<Rightarrow> string \<Rightarrow> bool" where
  "contains sub [] = (sub = [])"
| "contains sub (x # xs) = (starts_with sub (x # xs) \<or> contains sub xs)"

fun mentions_not_found :: "detail \<Rightarrow> bool" where
  "mentions_not_found (Text s) = contains ''not found'' (lower s)"
| "mentions_not_found (IdsNotFound ids) = True"


text \<open>
  \<^verbatim>\<open>batch_delete_products\<close> (\<^verbatim>\<open>DELETE /products/batch\<close>), from the list \<open>ids\<close> parsed
  out of the query string. The handler of \<^verbatim>\<open>HTTPException\<close> calls
  \<^verbatim>\<open>commons.product_service.batch_delete_products_silently\<close>; the function of that name
  is defined in the endpoint module, not in \<^verbatim>\<open>ProductService\<close>. A
  \<^verbatim>\<open>NotFoundException\<close> is neither an \<^verbatim>\<open>HTTPException\<close> nor a \<^verbatim>\<open>ValueError\<close> and
  passes through both handlers.
\<close>

definition batch_delete_products_endpoint :: "db \<Rightarrow> int list \<Rightarrow> db \<times> (exn + int list)" where
  "batch_delete_products_endpoint d ids =
     (if ids = [] then (d, Inl (HTTPException 400 (Text ''No valid product IDs provided'')))
      else case batch_delete_products d ids of
        (d', Inr deleted_products) \<Rightarrow> (d', Inr (map prod_id deleted_products))
      | (d', Inl (HTTPException status_code det)) \<Rightarrow>
          if status_code = 404 \<and> mentions_not_found det
          then (d', Inl (AttributeError ''batch_delete_products_silently''))
          else (d', Inl (HTTPException status_code det))
      | (d', Inl e) \<Rightarrow> (d', Inl e))"

text \<open>
  The function \<^verbatim>\<open>batch_delete_products_silently\<close> of the endpoint module (lines 259 to
  278), with \<^verbatim>\<open>self\<close> a product service.
\<close>

fun batch_delete_products_silently_loop ::
  "db \<Rightarrow> int list \<Rightarrow> product list \<Rightarrow> db \<times> (exn + product list)" where
  "batch_delete_products_silently_loop d [] deleted_products = (d, Inr deleted_products)"
| "batch_delete_products_silently_loop d (product_id # ids) deleted_products =
     (case get Product (products d) product_id of
        Inl e \<Rightarrow> (d, Inl e)
      | Inr product \<Rightarrow>
          (case ProductRepository_delete d product_id of
             (d', Inl e) \<Rightarrow> (d', Inl e)
           | (d', Inr obj) \<Rightarrow>
               batch_delete_products_silently_loop d' ids (deleted_products @ [product])))"

definition batch_delete_products_silently :: "db \<Rightarrow> int list \<Rightarrow> db \<times> (exn + product list)" where
  "batch_delete_products_silently d ids = batch_delete_products_silently_loop d ids []"












section \<open>The supplier service (\<^verbatim>\<open>app/services/supplier.py\<close>)\<close>

text \<open>
  The data of a \<^verbatim>\<open>SupplierCreate\<close> and of a \<^verbatim>\<open>SupplierUpdate\<close>
  (\<^verbatim>\<open>app/schemas/supplier.py\<close>); a field of an update is \<open>None\<close> when it was not set.
\<close>

record supplier_create =
  sc_name :: string
  sc_contact_info :: string
  sc_credit_rating :: int

record supplier_update =
  su_name :: "string option option"
  su_contact_info :: "string option option"
  su_credit_rating :: "int option option"

definition new_supplier :: "int \<Rightarrow> supplier_create \<Rightarrow> int \<Rightarrow> supplier" where
  "new_supplier i obj_in now =
     \<lparr>sup_id = i, sup_name = sc_name obj_in, sup_contact_info = sc_contact_info obj_in,
      sup_credit_rating = sc_credit_rating obj_in, sup_created_at = now, sup_updated_at = now\<rparr>"

text \<open>\<^verbatim>\<open>BaseRepository.create\<close> and \<^verbatim>\<open>BaseRepository.batch_create\<close> on suppliers.\<close>

definition BaseRepository_create_Supplier ::
  "db \<Rightarrow> supplier_create \<Rightarrow> int \<Rightarrow> db \<times> (exn + supplier)" where
  "BaseRepository_create_Supplier d obj_in now =
     (let db_obj = new_supplier (supplier_seq d) obj_in now
      in (d\<lparr>suppliers := suppliers d @ [db_obj], supplier_seq := supplier_seq d + 1\<rparr>,
          Inr db_obj))"

fun BaseRepository_batch_create_Supplier ::
  "db \<Rightarrow> supplier_create list \<Rightarrow> int \<Rightarrow> db \<times> supplier list" where
  "BaseRepository_batch_create_Supplier d [] now = (d, [])"
| "BaseRepository_batch_create_Supplier d (obj_in # objs_in) now =
     (let db_obj = new_supplier (supplier_seq d) obj_in now;
          (d', rest) = BaseRepository_batch_create_Supplier
             (d\<lparr>suppliers := suppliers d @ [db_obj], supplier_seq := supplier_seq d + 1\<rparr>)
             objs_in now
      in (d', db_obj # rest))"

text \<open>
  \<^verbatim>\<open>BaseRepository.update\<close> on a supplier, with \<^verbatim>\<open>obj_in.dict(exclude_unset=True)\<close>.
  The three columns are \<^verbatim>\<open>nullable=False\<close>.
\<close>

definition BaseRepository_update_Supplier ::
  "db \<Rightarrow> supplier \<Rightarrow> supplier_update \<Rightarrow> int \<Rightarrow> db \<times> (exn + supplier)" where
  "BaseRepository_update_Supplier d db_obj obj_in now =
     (case (setattr (su_name obj_in) (Some (sup_name db_obj)),
            setattr (su_contact_info obj_in) (Some (sup_contact_info db_obj)),
            setattr (su_credit_rating obj_in) (Some (sup_credit_rating db_obj))) of
        (Some n, Some c, Some r) \<Rightarrow>
          let obj = db_obj\<lparr>sup_name := n, sup_contact_info := c, sup_credit_rating := r\<rparr>;
              obj' = (if obj = db_obj then obj else obj\<lparr>sup_updated_at := now\<rparr>)
          in (d\<lparr>suppliers :=
                  map (\<lambda>q. if sup_id q = sup_id db_obj then obj' else q) (suppliers d)\<rparr>,
              Inr obj')
      | _ \<Rightarrow> (d, Inl (IntegrityError ''suppliers'')))"

text \<open>The test \<^verbatim>\<open>credit_rating < 0 or credit_rating > 5\<close> of the service.\<close>

definition out_of_range :: "int \<Rightarrow> bool" where
  "out_of_range credit_rating = (credit_rating < 0 \<or> credit_rating > 5)"

definition credit_rating_error :: exn where
  "credit_rating_error = HTTPException 400 (Text ''Credit rating must be between 0 and 5'')"

text \<open>\<^verbatim>\<open>SupplierService.create_supplier\<close>.\<close>

definition create_supplier :: "db \<Rightarrow> supplier_create \<Rightarrow> int \<Rightarrow> db \<times> (exn + supplier)" where
  "create_supplier d supplier_in now =
     (if out_of_range (sc_credit_rating supplier_in) then (d, Inl credit_rating_error)
      else BaseRepository_create_Supplier d supplier_in now)"

text \<open>
  \<^verbatim>\<open>SupplierService.update_supplier\<close>. The attribute \<^verbatim>\<open>supplier_in.credit_rating\<close> of a
  body that does not set it is \<open>None\<close>.
\<close>

definition update_supplier ::
  "db \<Rightarrow> int \<Rightarrow> supplier_update \<Rightarrow> int \<Rightarrow> db \<times> (exn + supplier)" where
  "update_supplier d i supplier_in now =
     then_do (d, get Supplier (suppliers d) i) (\<lambda>d supplier.
       case su_credit_rating supplier_in of
         Some (Some r) \<Rightarrow>
           if out_of_range r then (d, Inl credit_rating_error)
           else BaseRepository_update_Supplier d supplier supplier_in now
       | _ \<Rightarrow> BaseRepository_update_Supplier d supplier supplier_in now)"

text \<open>
  \<^verbatim>\<open>SupplierService.batch_create_suppliers\<close>: the loop over the ratings comes before the
  call of the repository.
\<close>

definition batch_create_suppliers ::
  "db \<Rightarrow> supplier_create list \<Rightarrow> int \<Rightarrow> db \<times> (exn + supplier list)" where
  "batch_create_suppliers d suppliers_in now =
     (if list_ex (\<lambda>supplier_in. out_of_range (sc_credit_rating supplier_in)) suppliers_in
      then (d, Inl credit_rating_error)
      else case BaseRepository_batch_create_Supplier d suppliers_in now of
             (d', created) \<Rightarrow> (d', Inr created))"

section \<open>Example data\<close>

definition acme :: supplier where
  "acme = \<lparr>sup_id = 1, sup_name = ''Acme'', sup_contact_info = ''acme@example.com'',
            sup_credit_rating = 4, sup_created_at = 0, sup_updated_at = 0\<rparr>"

definition supplier_db :: db where
  "supplier_db = \<lparr>products = [], suppliers = [acme], price_history = [], stock_history = [],
     product_seq = 1, supplier_seq = 2, price_history_seq = 1, stock_history_seq = 1\<rparr>"

definition rated :: "int \<Rightarrow> supplier_create" where
  "rated r = \<lparr>sc_name = ''Bolt'', sc_contact_info = ''bolt@example.com'', sc_credit_rating = r\<rparr>"

definition rating_update :: "int \<Rightarrow> supplier_update" where
  "rating_update r = \<lparr>su_name = None, su_contact_info = None, su_credit_rating = Some (Some r)\<rparr>"

definition widget :: product where
  "widget = \<lparr>prod_id = 1, prod_name = ''Widget'', prod_price = 19.99,
     prod_description = None, prod_stock_quantity = 100, prod_category = Some ''Tools'',
     prod_discount = 0, prod_created_at = 0, prod_updated_at = 0\<rparr>"

definition gadget :: product where
  "gadget = \<lparr>prod_id = 2, prod_name = ''Gadget'', prod_price = 5,
     prod_description = Some ''A small gadget'', prod_stock_quantity = 3,
     prod_category = None, prod_discount = 10, prod_created_at = 1, prod_updated_at = 1\<rparr>"

definition gizmo :: product where
  "gizmo = \<lparr>prod_id = 3, prod_name = ''Gizmo'', prod_price = 42,
     prod_description = None, prod_stock_quantity = 0, prod_category = Some ''Tools'',
     prod_discount = 0, prod_created_at = 2, prod_updated_at = 2\<rparr>"

definition shop_db :: db where
  "shop_db = \<lparr>products = [widget, gadget, gizmo], suppliers = [], price_history = [],
     stock_history = [], product_seq = 4, supplier_seq = 1, price_history_seq = 1,
     stock_history_seq = 1\<rparr>"






text \<open>
  The store without the products whose id is in \<open>ids\<close> and without their history
  rows: what deleting these products one after the other leaves.
\<close>

definition without :: "db \<Rightarrow> int list \<Rightarrow> db" where
  "without d ids =
     d\<lparr>products := filter (\<lambda>p. prod_id p \<notin> set ids) (products d),
       price_history := filter (\<lambda>h. ph_product_id h \<notin> set ids) (price_history d),
       stock_history := filter (\<lambda>h. sh_product_id h \<notin> set ids) (stock_history d)\<rparr>"

text \<open>Two filters: a range on the price, and a list of ids.\<close>

definition min_price_10 :: "(string \<times> val) list" where
  "min_price_10 = [(''price'', VDict [(''min'', VFloat 10), (''max'', VNone)])]"

definition id_in_1 :: "(string \<times> val) list" where
  "id_in_1 = [(''id'', VList [VInt 1])]"

text \<open>The values of an exact-match filter: anything but a dictionary or a list.\<close>

fun scalar :: "val \<Rightarrow> bool" where
  "scalar (VDict d) = False"
| "scalar (VList vs) = False"
| "scalar v = True"


section \<open>Lookup by primary key\<close>

lemma get_Inr: "get Product tbl i = Inr p \<Longrightarrow> p \<in> set tbl \<and> prod_id p = i"
  unfolding get_def
  by (auto split: option.splits simp: find_Some_iff getattr_def product_row_def Product_def)

lemma get_Inl:
  "get Product tbl i = Inl e \<Longrightarrow>
     i \<notin> prod_id ` set tbl \<and> e = NotFoundException ''Product'' i"
  unfolding get_def
  by (auto split: option.splits simp: find_None_iff getattr_def product_row_def Product_def)

lemma get_absent:
  "i \<notin> prod_id ` set tbl \<Longrightarrow> get Product tbl i = Inl (NotFoundException ''Product'' i)"
  using get_Inr[of tbl i] by (cases "get Product tbl i") (auto dest: get_Inl)

lemma get_present: "i \<in> prod_id ` set tbl \<Longrightarrow> \<exists>p. get Product tbl i = Inr p"
  using get_Inl[of tbl i] by (cases "get Product tbl i") auto

section \<open>Supplier ratings\<close>

text \<open>
  C6. A supplier create, single update or batch create with a credit rating outside
  \<open>[0, 5]\<close> is rejected, and the store it returns is the store it was given: nothing
  was written. For a batch, one rating out of range rejects the whole batch. An update
  of a supplier that does not exist is rejected too, by the lookup, with the store
  unchanged.
\<close>

theorem supplier_rating_rejected_before_write:
  "(\<not> (0 \<le> sc_credit_rating s \<and> sc_credit_rating s \<le> 5) \<longrightarrow>
      create_supplier d s now = (d, Inl credit_rating_error))
   \<and> (su_credit_rating u = Some (Some r) \<and> \<not> (0 \<le> r \<and> r \<le> 5) \<longrightarrow>
      update_supplier d i u now =
        (d, Inl (case get Supplier (suppliers d) i of
                   Inl e \<Rightarrow> e | Inr found \<Rightarrow> credit_rating_error)))
   \<and> ((\<exists>x \<in> set ss. \<not> (0 \<le> sc_credit_rating x \<and> sc_credit_rating x \<le> 5)) \<longrightarrow>
      batch_create_suppliers d ss now = (d, Inl credit_rating_error))"
proof (intro conjI impI)
  assume "\<not> (0 \<le> sc_credit_rating s \<and> sc_credit_rating s \<le> 5)"
  then show "create_supplier d s now = (d, Inl credit_rating_error)"
    by (auto simp: create_supplier_def out_of_range_def)
next
  assume "su_credit_rating u = Some (Some r) \<and> \<not> (0 \<le> r \<and> r \<le> 5)"
  then show "update_supplier d i u now =
      (d, Inl (case get Supplier (suppliers d) i of
                 Inl e \<Rightarrow> e | Inr found \<Rightarrow> credit_rating_error))"
    by (auto simp: update_supplier_def then_do_def out_of_range_def split: sum.splits)
next
  assume "\<exists>x \<in> set ss. \<not> (0 \<le> sc_credit_rating x \<and> sc_credit_rating x \<le> 5)"
  then show "batch_create_suppliers d ss now = (d, Inl credit_rating_error)"
    by (auto simp: batch_create_suppliers_def out_of_range_def list_ex_iff)
qed

theorem supplier_rating_rejected_before_write_witness:
  "create_supplier supplier_db (rated 6) 7 = (supplier_db, Inl credit_rating_error)
   \<and> update_supplier supplier_db 1 (rating_update (- 1)) 7 =
       (supplier_db, Inl credit_rating_error)
   \<and> batch_create_suppliers supplier_db [rated 3, rated 6] 7 =
       (supplier_db, Inl credit_rating_error)"
  using supplier_rating_rejected_before_write
          [of "rated 6" supplier_db 7 "rating_update (- 1)" "- 1" 1 "[rated 3, rated 6]"]
  by (simp add: rated_def rating_update_def get_def Supplier_def supplier_row_def
        getattr_def supplier_db_def acme_def)

section \<open>Order of the history reads\<close>



section \<open>Pagination\<close>








section \<open>The tracked update\<close>













section \<open>Batch delete\<close>

lemma delete_present:
  "i \<in> prod_id ` set (products d) \<Longrightarrow>
     \<exists>obj. ProductRepository_delete d i = (without d [i], Inr obj)"
  using get_present[of i "products d"]
  by (auto simp: ProductRepository_delete_def without_def)

lemma without_without: "without (without d xs) ys = without d (xs @ ys)"
  by (auto simp: without_def intro!: filter_cong)

lemma without_Nil: "without d [] = d"
  by (simp add: without_def)

lemma ids_without: "prod_id ` set (products (without d xs)) = prod_id ` set (products d) - set xs"
  by (auto simp: without_def)

lemma strict_loop_stops:
  assumes "distinct pre" "set pre \<subseteq> prod_id ` set (products d)"
    "m \<notin> prod_id ` set (products d)"
  shows "batch_delete_products_loop d (pre @ m # post) deleted nf =
           (without d pre, Inl (NotFoundException ''Product'' m))"
  using assms
proof (induction pre arbitrary: d deleted)
  case Nil
  then show ?case by (simp add: get_absent without_Nil)
next
  case (Cons a pre)
  from Cons.prems obtain p where p: "get Product (products d) a = Inr p"
    using get_present[of a "products d"] by auto
  from Cons.prems obtain obj where del: "ProductRepository_delete d a = (without d [a], Inr obj)"
    using delete_present[of a d] by auto
  have "batch_delete_products_loop (without d [a]) (pre @ m # post) (deleted @ [p]) nf =
          (without (without d [a]) pre, Inl (NotFoundException ''Product'' m))"
    using Cons.prems by (intro Cons.IH) (auto simp: ids_without)
  then show ?case by (simp add: p del without_without)
qed


lemma strict_loop_error:
  assumes "m \<in> set ids" "m \<notin> prod_id ` set (products d)"
  shows "isl (snd (batch_delete_products_loop d ids deleted nf))"
  using assms
proof (induction ids arbitrary: d deleted)
  case Nil
  then show ?case by simp
next
  case (Cons a ids)
  show ?case
  proof (cases "a \<in> prod_id ` set (products d)")
    case False
    then show ?thesis by (simp add: get_absent)
  next
    case True
    then obtain p where p: "get Product (products d) a = Inr p"
      using get_present[of a "products d"] by auto
    from True obtain obj where del: "ProductRepository_delete d a = (without d [a], Inr obj)"
      using delete_present[of a d] by auto
    from True Cons.prems have "m \<in> set ids" by auto
    moreover from Cons.prems have "m \<notin> prod_id ` set (products (without d [a]))"
      by (simp add: ids_without)
    ultimately have "isl (snd (batch_delete_products_loop (without d [a]) ids (deleted @ [p]) nf))"
      by (rule Cons.IH)
    then show ?thesis by (simp add: p del)
  qed
qed

lemma shop_strict_delete:
  "batch_delete_products shop_db [1, 2, 999] =
     (without shop_db [1, 2], Inl (NotFoundException ''Product'' 999))"
proof -
  have "batch_delete_products_loop shop_db ([1, 2] @ 999 # []) [] [] =
     (without shop_db [1, 2], Inl (NotFoundException ''Product'' 999))"
    by (rule strict_loop_stops)
       (simp_all add: shop_db_def widget_def gadget_def gizmo_def)
  then show ?thesis by (simp add: batch_delete_products_def then_do_def)
qed

lemma shop_without: "products (without shop_db [1, 2]) = [gizmo]"
  by (simp add: without_def shop_db_def widget_def gadget_def gizmo_def)

text \<open>
  C2, as the code has it. A strict batch delete whose list names an id that is absent
  from the store ends with an error, but not without effect: when the ids of the list
  are distinct, every product listed before the first absent id has been deleted.
\<close>

theorem strict_batch_delete_partial_effect:
  assumes "m \<in> set ids" "m \<notin> prod_id ` set (products d)"
  shows "isl (snd (batch_delete_products d ids))
     \<and> (distinct ids \<longrightarrow>
          (\<forall>i \<in> set (takeWhile (\<lambda>i. i \<in> prod_id ` set (products d)) ids).
              i \<notin> prod_id ` set (products (fst (batch_delete_products d ids)))))"
proof (intro conjI impI)
  have "isl (snd (batch_delete_products_loop d ids [] []))"
    using assms by (rule strict_loop_error)
  then show "isl (snd (batch_delete_products d ids))"
    by (cases "batch_delete_products_loop d ids [] []")
       (auto simp: batch_delete_products_def then_do_def split: sum.splits)
next
  assume dist: "distinct ids"
  let ?P = "\<lambda>i. i \<in> prod_id ` set (products d)"
  let ?pre = "takeWhile ?P ids"
  have "dropWhile ?P ids \<noteq> []" using assms by auto
  then obtain x post where dw: "dropWhile ?P ids = x # post" by (cases "dropWhile ?P ids") auto
  then have x: "x \<notin> prod_id ` set (products d)"
    using hd_dropWhile[of ?P ids] by (metis list.sel(1) list.simps(3))
  have ids: "ids = ?pre @ x # post" using dw by (metis takeWhile_dropWhile_id)
  have "distinct ?pre" using dist by (rule distinct_takeWhile)
  moreover have "set ?pre \<subseteq> prod_id ` set (products d)"
    by (auto dest: set_takeWhileD)
  ultimately have "batch_delete_products_loop d (?pre @ x # post) [] [] =
      (without d ?pre, Inl (NotFoundException ''Product'' x))"
    using x by (rule strict_loop_stops)
  then have "fst (batch_delete_products d ids) = without d ?pre"
    using ids by (simp add: batch_delete_products_def then_do_def)
  then show "\<forall>i \<in> set ?pre. i \<notin> prod_id ` set (products (fst (batch_delete_products d ids)))"
    by (simp add: ids_without)
qed

theorem strict_batch_delete_partial_effect_witness:
  "isl (snd (batch_delete_products shop_db [1, 2, 999]))
   \<and> 1 \<notin> prod_id ` set (products (fst (batch_delete_products shop_db [1, 2, 999])))
   \<and> 2 \<notin> prod_id ` set (products (fst (batch_delete_products shop_db [1, 2, 999])))"
  using strict_batch_delete_partial_effect[of 999 "[1, 2, 999]" shop_db]
  by (simp add: shop_db_def widget_def gadget_def gizmo_def)


text \<open>
  C2 as stated fails: with products 1, 2 and 3 in the store and 999 absent, the strict
  batch delete of \<open>[1, 2, 999]\<close> does not leave the store unchanged; products 1 and
  2 are gone.
\<close>

theorem strict_batch_delete_counterexample:
  "999 \<notin> prod_id ` set (products shop_db)
   \<and> fst (batch_delete_products shop_db [1, 2, 999]) \<noteq> shop_db
   \<and> products (fst (batch_delete_products shop_db [1, 2, 999])) = [gizmo]"
proof -
  have "products shop_db \<noteq> [gizmo]" by (simp add: shop_db_def)
  then have "without shop_db [1, 2] \<noteq> shop_db" using shop_without by metis
  then show ?thesis
    by (simp add: shop_strict_delete shop_without)
       (simp add: shop_db_def widget_def gadget_def gizmo_def)
qed

lemma shop_silent_delete:
  "batch_delete_products_silently shop_db [1, 2, 999] =
     (without shop_db [1, 2], Inl (NotFoundException ''Product'' 999))"
  by (simp add: batch_delete_products_silently_def get_def ProductRepository_delete_def
        Product_def product_row_def getattr_def without_def shop_db_def
        widget_def gadget_def gizmo_def)

text \<open>
  C3 at the ids \<open>[1, 2, 999]\<close>, with products 1, 2 and 3 in the store. The endpoint
  does not return the deleted ids: after deleting products 1 and 2 it ends with the
  \<^verbatim>\<open>NotFoundException\<close> for 999, which no handler of the endpoint catches. The function
  \<^verbatim>\<open>batch_delete_products_silently\<close> ends in the same way.
\<close>

theorem lenient_batch_delete_raises:
  "batch_delete_products_endpoint shop_db [1, 2, 999] =
     (without shop_db [1, 2], Inl (NotFoundException ''Product'' 999))
   \<and> batch_delete_products_silently shop_db [1, 2, 999] =
     (without shop_db [1, 2], Inl (NotFoundException ''Product'' 999))
   \<and> products (without shop_db [1, 2]) = [gizmo]"
  by (simp add: batch_delete_products_endpoint_def shop_strict_delete shop_silent_delete
        shop_without)

text \<open>
  \<^verbatim>\<open>BaseRepository.batch_delete\<close>, on the same ids, skips the absent id and returns the
  two deleted products.
\<close>

lemma shop_generic_batch_delete:
  "batch_delete Product (products shop_db) [1, 2, 999] = ([gizmo], [widget, gadget])"
  by (simp add: batch_delete_def col_in_def Product_def product_row_def getattr_def
        shop_db_def widget_def gadget_def gizmo_def)

section \<open>Counting and listing\<close>

text \<open>
  C1 at two filters on the table of products 1 (price 19.99) and 2 (price 5): with a
  range filter on the price, and with a list filter on the id, \<^verbatim>\<open>get_multi\<close> returns
  product 1, and \<^verbatim>\<open>count\<close> is not 1.
\<close>

theorem count_ignores_range_and_list_filters:
  "get_multi Product [widget, gadget] 0 100 None (Some ''asc'') min_price_10 = Inr [widget]
   \<and> count Product [widget, gadget] min_price_10 \<noteq> length [widget]
   \<and> get_multi Product [widget, gadget] 0 100 None (Some ''asc'') id_in_1 = Inr [widget]
   \<and> count Product [widget, gadget] id_in_1 \<noteq> length [widget]"
  by (simp add: get_multi_def count_def min_price_10_def id_in_1_def hasattr_def
        sort_column_def where_conditions_def and_conds_def range_conditions_def
        col_ge_def col_le_def col_in_def col_eq_def offset_limit_def
        Product_def product_row_def getattr_def widget_def gadget_def)

text \<open>
  C7 on a table that the store yields with product 2 before product 1: with no sort
  field, with one that the model does not have and with an empty one,
  \<^verbatim>\<open>BaseRepository.get_multi\<close> returns without error, in the order of the table, which
  is not ascending by id.
\<close>

theorem get_multi_keeps_table_order:
  "get_multi Product [gadget, widget] 0 100 None (Some ''asc'') [] = Inr [gadget, widget]
   \<and> get_multi Product [gadget, widget] 0 100 (Some ''colour'') (Some ''asc'') [] =
       Inr [gadget, widget]
   \<and> get_multi Product [gadget, widget] 0 100 (Some []) (Some ''asc'') [] =
       Inr [gadget, widget]
   \<and> \<not> sorted (map prod_id [gadget, widget])"
  by (simp add: get_multi_def hasattr_def sort_column_def where_conditions_def
        offset_limit_def Product_def widget_def gadget_def)

text \<open>
  With exact-match filters only, \<^verbatim>\<open>count\<close> is the length of what \<^verbatim>\<open>get_multi\<close> returns
  from offset 0 with a limit that no table exceeds.
\<close>

lemma scalar_condition:
  "scalar (snd kv) \<Longrightarrow> get_multi_condition m kv = count_condition m kv"
  by (cases kv; cases "snd kv") auto

lemma count_mirrors_scalar_filters:
  assumes "list_all (\<lambda>kv. scalar (snd kv)) filters" "length tbl \<le> limit"
  shows "get_multi m tbl 0 limit None sort_order filters =
           Inr (where_conditions (as_row m) (concat (map (count_condition m) filters)) tbl)
       \<and> count m tbl filters =
           length (where_conditions (as_row m) (concat (map (count_condition m) filters)) tbl)"
proof -
  have eq: "map (get_multi_condition m) filters = map (count_condition m) filters"
    using assms(1) by (auto simp: list_all_iff scalar_condition)
  have len: "length (where_conditions (as_row m) cs tbl) \<le> limit" for cs
    using assms(2) le_trans[OF length_filter_le]
    by (auto simp: where_conditions_def)
  show ?thesis
    unfolding get_multi_def count_def eq
    by (simp add: sort_column_def offset_limit_def len)
qed

text \<open>
  \<^verbatim>\<open>ProductRepository.get_multi_with_suppliers\<close> has the default order: with no usable
  sort field, its result is ascending by id.
\<close>

lemma rank_id: "sort_rank (getattr (product_row x) ''id'') = (0, real_of_int (prod_id x), [])"
  by (simp add: getattr_def product_row_def)

lemma order_by_id_sorted: "sorted (map prod_id (order_by product_row ''id'' False xs))"
proof -
  let ?f = "\<lambda>x. sort_rank (getattr (product_row x) ''id'')"
  have "sorted (map ?f (sort_key ?f xs))" by (rule sorted_sort_key)
  then have "sorted_wrt (\<lambda>x y. ?f x \<le> ?f y) (sort_key ?f xs)"
    by (simp add: sorted_wrt_map)
  then have "sorted_wrt (\<lambda>x y. prod_id x \<le> prod_id y) (sort_key ?f xs)"
    by (rule sorted_wrt_mono_rel[rotated]) (auto simp: rank_id less_eq_prod_def)
  then show ?thesis by (simp add: order_by_def sorted_wrt_map)
qed

lemma product_list_default_order:
  assumes "sort_column Product sort_by = None"
  shows "sorted (map prod_id (get_multi_with_suppliers d skip limit sort_by sort_order kwargs))"
proof -
  have "sorted_wrt (\<lambda>x y. prod_id x \<le> prod_id y) (order_by product_row ''id'' False xs)" for xs
    using order_by_id_sorted[of xs] by (simp add: sorted_wrt_map)
  then have "sorted_wrt (\<lambda>x y. prod_id x \<le> prod_id y)
               (take limit (drop skip (order_by product_row ''id'' False xs)))" for xs
    by (intro sorted_wrt_take sorted_wrt_drop)
  then show ?thesis
    by (simp add: get_multi_with_suppliers_def assms offset_limit_def sorted_wrt_map Let_def)
qed

lemma no_sort_field: "sort_column Product None = None" "sort_column Product (Some []) = None"
  "k \<notin> set (columns Product) \<Longrightarrow> sort_column Product (Some k) = None"
  by (simp_all add: sort_column_def hasattr_def)


section \<open>Price bounds\<close>

text \<open>
  The schemas of product creation and of the single product update accept a price only
  if it is greater than 0, and their endpoints leave the store as it is otherwise.
\<close>

lemma create_accepts_only_positive_price:
  "validate_ProductCreate decimals body = Inr accepted \<Longrightarrow> 0 < pc_price body \<and> accepted = body"
  by (auto simp: validate_ProductCreate_def split: if_splits option.splits)

lemma update_accepts_only_positive_price:
  "validate_ProductUpdate cents body = Inr accepted \<Longrightarrow>
     upd_price (body_data body) = Some (Some v) \<Longrightarrow> 0 < v \<and> accepted = body"
  by (auto simp: validate_ProductUpdate_def Let_def split: if_splits)

lemma create_rejects_price:
  "pc_price body \<le> 0 \<Longrightarrow> create_product_endpoint decimals d body now = (d, Inl (ValidationError ''price''))
     \<or> create_product_endpoint decimals d body now = (d, Inl (ValidationError ''name''))"
  by (auto simp: create_product_endpoint_def validate_ProductCreate_def)

lemma update_rejects_price:
  "upd_price (body_data body) = Some (Some v) \<Longrightarrow> v \<le> 0 \<Longrightarrow>
     fst (update_product_endpoint cents d i body now) = d
     \<and> isl (snd (update_product_endpoint cents d i body now))"
  by (auto simp: update_product_endpoint_def validate_ProductUpdate_def Let_def)


end
